theory Spec2Isabelle
  imports Complex_Main
begin

section \<open>Data model of \<open>scripts/tonypi_pose_mimic.py\<close>\<close>

text \<open>
  The engine is the class \<open>TonyPiPoseMimic\<close>: per frame it turns pose landmarks into
  servo commands. Python's floats are idealised here by the reals (finite values, exact
  arithmetic); Python's unbounded integers are \<open>int\<close>. The only exceptions the per-frame
  code can raise are an index error of \<open>landmarks[idx]\<close> and a division by zero in
  \<open>val_map\<close>.
\<close>

datatype py_error = IndexError | ZeroDivisionError

text \<open>A pose landmark: normalised image coordinates and a relative depth.\<close>

record landmark =
  lm_x :: real
  lm_y :: real
  lm_z :: real

text \<open>The dataclass \<open>ServoCommand\<close>.\<close>

record servo_command =
  servo_id :: int
  position :: int
  name :: string

text \<open>
  The attributes of \<open>self\<close> that per-frame processing reads or writes: the mode flag
  and the smoothing memory \<open>last_servos\<close>, a dictionary from servo id to position.
\<close>

record mimic =
  full_body :: bool
  last_servos :: "int \<rightharpoonup> int"

type_synonym vec2 = "int \<times> int"

definition SERVO_MIN :: int where
  "SERVO_MIN = 125"

definition SERVO_MAX :: int where
  "SERVO_MAX = 875"

definition SMOOTHING_THRESHOLD :: int where
  "SMOOTHING_THRESHOLD = 25"

text \<open>The engine as \<open>__init__\<close> leaves it: an empty smoothing memory.\<close>

definition init_mimic :: "bool \<Rightarrow> mimic" where
  "init_mimic fb = \<lparr>full_body = fb, last_servos = Map.empty\<rparr>"

section \<open>Leaf functions\<close>

text \<open>Python's \<open>int(x)\<close> on a float: truncation towards zero.\<close>

definition py_int :: "real \<Rightarrow> int" where
  "py_int r = (if 0 \<le> r then \<lfloor>r\<rfloor> else \<lceil>r\<rceil>)"

text \<open>\<open>val_map\<close>: true division, which raises when the input range is empty.\<close>

definition val_map :: "real \<Rightarrow> real \<Rightarrow> real \<Rightarrow> real \<Rightarrow> real \<Rightarrow> py_error + real" where
  "val_map x in_min in_max out_min out_max =
     (if in_max - in_min = 0 then Inl ZeroDivisionError
      else Inr ((x - in_min) * (out_max - out_min) / (in_max - in_min) + out_min))"

text \<open>\<open>clamp_servo(value, min_val=125, max_val=875)\<close>.\<close>

definition clamp_servo :: "int \<Rightarrow> int \<Rightarrow> int \<Rightarrow> int" where
  "clamp_servo val min_val max_val = max min_val (min max_val val)"

text \<open>
  The numpy operations of \<open>vector_2d_angle\<close>, on the integer pixel vectors every caller
  passes.
\<close>

definition vsub :: "vec2 \<Rightarrow> vec2 \<Rightarrow> vec2" where
  "vsub a b = (fst a - fst b, snd a - snd b)"

definition linalg_norm :: "vec2 \<Rightarrow> real" where
  "linalg_norm v = sqrt (real_of_int (fst v * fst v + snd v * snd v))"

definition np_dot :: "vec2 \<Rightarrow> vec2 \<Rightarrow> int" where
  "np_dot v1 v2 = fst v1 * fst v2 + snd v1 * snd v2"

definition np_cross :: "vec2 \<Rightarrow> vec2 \<Rightarrow> int" where
  "np_cross v1 v2 = fst v1 * snd v2 - snd v1 * fst v2"

definition np_clip :: "real \<Rightarrow> real \<Rightarrow> real \<Rightarrow> real" where
  "np_clip a lo hi = min (max a lo) hi"

definition np_degrees :: "real \<Rightarrow> real" where
  "np_degrees r = r * 180 / pi"

definition np_arctan2 :: "real \<Rightarrow> real \<Rightarrow> real" where
  "np_arctan2 y x =
     (if 0 < x then arctan (y / x)
      else if x < 0 then (if 0 \<le> y then arctan (y / x) + pi else arctan (y / x) - pi)
      else if 0 < y then pi / 2
      else if y < 0 then - (pi / 2)
      else 0)"

definition vector_2d_angle :: "vec2 \<Rightarrow> vec2 \<Rightarrow> int option" where
  "vector_2d_angle v1 v2 =
     (let d = linalg_norm v1 * linalg_norm v2 in
      if d = 0 then None
      else
        let cos = np_clip (real_of_int (np_dot v1 v2) / d) (- 1) 1;
            sin = np_clip (real_of_int (np_cross v1 v2) / d) (- 1) 1
        in Some (py_int (np_degrees (np_arctan2 sin cos))))"

section \<open>The engine's methods\<close>

text \<open>\<open>landmarks[idx]\<close> on the landmark list of one detected pose.\<close>

definition landmark_at :: "landmark list \<Rightarrow> nat \<Rightarrow> py_error + landmark" where
  "landmark_at landmarks idx =
     (if idx < length landmarks then Inr (landmarks ! idx) else Inl IndexError)"

definition get_point :: "landmark list \<Rightarrow> nat \<Rightarrow> int \<Rightarrow> int \<Rightarrow> py_error + vec2" where
  "get_point landmarks idx width height =
     (case landmark_at landmarks idx of
        Inl e \<Rightarrow> Inl e
      | Inr lm \<Rightarrow> Inr (py_int (lm_x lm * real_of_int width), py_int (lm_y lm * real_of_int height)))"

text \<open>\<open>smooth_servo\<close> returns the emitted position and the engine with its memory updated.\<close>

definition smooth_servo :: "mimic \<Rightarrow> int \<Rightarrow> int \<Rightarrow> int \<times> mimic" where
  "smooth_servo self sid new_value =
     (case last_servos self sid of
        Some prev \<Rightarrow>
          if \<bar>prev - new_value\<bar> < SMOOTHING_THRESHOLD then (prev, self)
          else (new_value, self\<lparr>last_servos := (last_servos self)(sid \<mapsto> new_value)\<rparr>)
      | None \<Rightarrow> (new_value, self\<lparr>last_servos := (last_servos self)(sid \<mapsto> new_value)\<rparr>))"

text \<open>
  Sequencing in the methods: a statement either raises, leaving the engine as it is at
  that point, or yields a value and the updated engine.
\<close>

type_synonym 'a action = "mimic \<Rightarrow> (py_error + 'a) \<times> mimic"

definition ret :: "'a \<Rightarrow> 'a action" where
  "ret a = (\<lambda>self. (Inr a, self))"

definition lift :: "py_error + 'a \<Rightarrow> 'a action" where
  "lift r = (\<lambda>self. (r, self))"

definition bind :: "'a action \<Rightarrow> ('a \<Rightarrow> 'b action) \<Rightarrow> 'b action" where
  "bind m f = (\<lambda>self. case m self of (Inl e, self') \<Rightarrow> (Inl e, self') | (Inr a, self') \<Rightarrow> f a self')"

definition get_full_body :: "bool action" where
  "get_full_body = (\<lambda>self. (Inr (full_body self), self))"

text \<open>
  The three statements every joint repeats:
  \<^verbatim>\<open>servoN = clamp_servo(int(val_map(x, in_min, in_max, out_min, out_max)))\<close>,
  \<^verbatim>\<open>servoN = self.smooth_servo(N, servoN)\<close> and
  \<^verbatim>\<open>commands.append(ServoCommand(N, servoN, name))\<close>; the command is returned for the
  caller to append.
\<close>

definition servo_step ::
  "int \<Rightarrow> string \<Rightarrow> real \<Rightarrow> real \<Rightarrow> real \<Rightarrow> real \<Rightarrow> real \<Rightarrow> servo_command action" where
  "servo_step sid nm x in_min in_max out_min out_max =
     bind (lift (val_map x in_min in_max out_min out_max)) (\<lambda>v.
     (\<lambda>self. let (p, self') = smooth_servo self sid (clamp_servo (py_int v) 125 875)
              in (Inr \<lparr>servo_id = sid, position = p, name = nm\<rparr>, self')))"

definition calculate_arm_servos :: "landmark list \<Rightarrow> int \<Rightarrow> int \<Rightarrow> servo_command list action" where
  "calculate_arm_servos landmarks width height =
     bind (lift (get_point landmarks 11 width height)) (\<lambda>left_shoulder.
     bind (lift (get_point landmarks 12 width height)) (\<lambda>right_shoulder.
     bind (lift (get_point landmarks 13 width height)) (\<lambda>left_elbow.
     bind (lift (get_point landmarks 14 width height)) (\<lambda>right_elbow.
     bind (lift (get_point landmarks 15 width height)) (\<lambda>left_wrist.
     bind (lift (get_point landmarks 16 width height)) (\<lambda>right_wrist.
     let left_ref = (width, snd left_shoulder);
         right_ref = (0, snd right_shoulder);
         left_shoulder_angle =
           vector_2d_angle (vsub left_shoulder left_ref) (vsub left_shoulder left_elbow);
         left_elbow_angle =
           vector_2d_angle (vsub left_elbow left_shoulder) (vsub left_wrist left_elbow);
         right_shoulder_angle =
           vector_2d_angle (vsub right_shoulder right_ref) (vsub right_shoulder right_elbow);
         right_elbow_angle =
           vector_2d_angle (vsub right_elbow right_shoulder) (vsub right_wrist right_elbow)
     in
       if left_shoulder_angle \<noteq> None \<and> left_elbow_angle \<noteq> None
          \<and> right_shoulder_angle \<noteq> None \<and> right_elbow_angle \<noteq> None
       then
         bind (servo_step 15 ''R_shoulder_side'' (real_of_int (the left_shoulder_angle))
                 (- 90) 90 (real_of_int SERVO_MIN) (real_of_int SERVO_MAX)) (\<lambda>c15.
         bind (servo_step 14 ''R_elbow'' (real_of_int (the left_elbow_angle))
                 (- 90) 90 (real_of_int SERVO_MIN) (real_of_int SERVO_MAX)) (\<lambda>c14.
         bind (servo_step 7 ''L_shoulder_side'' (real_of_int (the right_shoulder_angle))
                 (- 90) 90 (real_of_int SERVO_MIN) (real_of_int SERVO_MAX)) (\<lambda>c7.
         bind (servo_step 6 ''L_elbow'' (real_of_int (the right_elbow_angle))
                 (- 90) 90 (real_of_int SERVO_MIN) (real_of_int SERVO_MAX)) (\<lambda>c6.
         ret [c15, c14, c7, c6]))))
       else ret []))))))"

definition calculate_shoulder_forward_servos ::
  "landmark list \<Rightarrow> int \<Rightarrow> int \<Rightarrow> servo_command list action" where
  "calculate_shoulder_forward_servos landmarks width height =
     bind (lift (landmark_at landmarks 11)) (\<lambda>left_shoulder.
     bind (lift (landmark_at landmarks 12)) (\<lambda>right_shoulder.
     bind (lift (landmark_at landmarks 15)) (\<lambda>left_wrist.
     bind (lift (landmark_at landmarks 16)) (\<lambda>right_wrist.
     let left_z_diff = lm_z left_shoulder - lm_z left_wrist;
         right_z_diff = lm_z right_shoulder - lm_z right_wrist
     in
       bind (servo_step 16 ''R_shoulder_fwd'' left_z_diff (- 0.3) 0.3 500 125) (\<lambda>c16.
       bind (servo_step 8 ''L_shoulder_fwd'' right_z_diff (- 0.3) 0.3 500 900) (\<lambda>c8.
       ret [c16, c8]))))))"

definition calculate_hip_servos :: "landmark list \<Rightarrow> int \<Rightarrow> int \<Rightarrow> servo_command list action" where
  "calculate_hip_servos landmarks width height =
     bind (lift (get_point landmarks 23 width height)) (\<lambda>left_hip.
     bind (lift (get_point landmarks 24 width height)) (\<lambda>right_hip.
     bind (lift (get_point landmarks 25 width height)) (\<lambda>left_knee.
     bind (lift (get_point landmarks 26 width height)) (\<lambda>right_knee.
     let left_hip_ref = (fst left_hip, snd left_hip + 100);
         right_hip_ref = (fst right_hip, snd right_hip + 100);
         left_hip_side_angle =
           vector_2d_angle (vsub left_hip left_hip_ref) (vsub left_hip left_knee);
         right_hip_side_angle =
           vector_2d_angle (vsub right_hip right_hip_ref) (vsub right_hip right_knee)
     in
       bind (case left_hip_side_angle of
               Some a \<Rightarrow> bind (servo_step 4 ''R_hip_side'' (real_of_int a) (- 45) 45 450 750)
                           (\<lambda>c4. ret [c4])
             | None \<Rightarrow> ret []) (\<lambda>commands1.
       bind (case right_hip_side_angle of
               Some a \<Rightarrow> bind (servo_step 12 ''L_hip_side'' (real_of_int a) (- 45) 45 250 550)
                           (\<lambda>c12. ret (commands1 @ [c12]))
             | None \<Rightarrow> ret commands1) (\<lambda>commands2.
       bind (lift (landmark_at landmarks 23)) (\<lambda>left_hip_lm.
       bind (lift (landmark_at landmarks 24)) (\<lambda>right_hip_lm.
       bind (lift (landmark_at landmarks 25)) (\<lambda>left_knee_lm.
       bind (lift (landmark_at landmarks 26)) (\<lambda>right_knee_lm.
       let left_hip_z = lm_z left_hip_lm - lm_z left_knee_lm;
           right_hip_z = lm_z right_hip_lm - lm_z right_knee_lm
       in
         bind (servo_step 3 ''R_hip_front'' left_hip_z (- 0.2) 0.2 700 300) (\<lambda>c3.
         bind (servo_step 11 ''L_hip_front'' right_hip_z (- 0.2) 0.2 300 700) (\<lambda>c11.
         ret (commands2 @ [c3, c11])))))))))))))"

definition calculate_knee_servos :: "landmark list \<Rightarrow> int \<Rightarrow> int \<Rightarrow> servo_command list action" where
  "calculate_knee_servos landmarks width height =
     bind (lift (get_point landmarks 23 width height)) (\<lambda>left_hip.
     bind (lift (get_point landmarks 24 width height)) (\<lambda>right_hip.
     bind (lift (get_point landmarks 25 width height)) (\<lambda>left_knee.
     bind (lift (get_point landmarks 26 width height)) (\<lambda>right_knee.
     bind (lift (get_point landmarks 27 width height)) (\<lambda>left_ankle.
     bind (lift (get_point landmarks 28 width height)) (\<lambda>right_ankle.
     let left_knee_angle =
           vector_2d_angle (vsub left_hip left_knee) (vsub left_ankle left_knee);
         right_knee_angle =
           vector_2d_angle (vsub right_hip right_knee) (vsub right_ankle right_knee)
     in
       bind (case left_knee_angle of
               Some a \<Rightarrow> bind (servo_step 2 ''R_knee'' (real_of_int \<bar>a\<bar>) 90 180 150 390)
                           (\<lambda>c2. ret [c2])
             | None \<Rightarrow> ret []) (\<lambda>commands1.
       bind (case right_knee_angle of
               Some a \<Rightarrow> bind (servo_step 10 ''L_knee'' (real_of_int \<bar>a\<bar>) 90 180 850 610)
                           (\<lambda>c10. ret (commands1 @ [c10]))
             | None \<Rightarrow> ret commands1) (\<lambda>commands2.
       ret commands2))))))))"

text \<open>
  \<open>calculate_servo_commands\<close>: arms and shoulder rotation always, hips and knees in
  full-body mode; an empty command list is returned as \<open>None\<close>.
\<close>

definition calculate_servo_commands ::
  "landmark list \<Rightarrow> int \<Rightarrow> int \<Rightarrow> servo_command list option action" where
  "calculate_servo_commands landmarks width height =
     bind (calculate_arm_servos landmarks width height) (\<lambda>arm.
     bind (calculate_shoulder_forward_servos landmarks width height) (\<lambda>fwd.
     bind get_full_body (\<lambda>fb.
     bind (if fb
           then bind (calculate_hip_servos landmarks width height) (\<lambda>hip.
                bind (calculate_knee_servos landmarks width height) (\<lambda>knee.
                ret (arm @ fwd @ hip @ knee)))
           else ret (arm @ fwd)) (\<lambda>commands.
     ret (if commands = [] then None else Some commands)))))"

section \<open>Joints, candidates and observations\<close>

text \<open>
  The planar joints, named as their commands are. \<open>joint_servo\<close> is the servo a joint
  drives and \<open>joint_vectors\<close> the two vectors its angle is taken between, read off the
  calls of \<open>vector_2d_angle\<close> in \<open>calculate_arm_servos\<close>, \<open>calculate_hip_servos\<close> and
  \<open>calculate_knee_servos\<close>.
\<close>

datatype joint =
  R_shoulder_side | R_elbow | L_shoulder_side | L_elbow
  | R_hip_side | L_hip_side | R_knee | L_knee


text \<open>The pixel coordinates \<open>get_point\<close> computes when the index is present.\<close>

definition pixel :: "landmark list \<Rightarrow> nat \<Rightarrow> int \<Rightarrow> int \<Rightarrow> vec2" where
  "pixel landmarks idx width height =
     (py_int (lm_x (landmarks ! idx) * real_of_int width),
      py_int (lm_y (landmarks ! idx) * real_of_int height))"

fun joint_vectors :: "joint \<Rightarrow> landmark list \<Rightarrow> int \<Rightarrow> int \<Rightarrow> vec2 \<times> vec2" where
  "joint_vectors R_shoulder_side ls w h =
     (vsub (pixel ls 11 w h) (w, snd (pixel ls 11 w h)), vsub (pixel ls 11 w h) (pixel ls 13 w h))"
| "joint_vectors R_elbow ls w h =
     (vsub (pixel ls 13 w h) (pixel ls 11 w h), vsub (pixel ls 15 w h) (pixel ls 13 w h))"
| "joint_vectors L_shoulder_side ls w h =
     (vsub (pixel ls 12 w h) (0, snd (pixel ls 12 w h)), vsub (pixel ls 12 w h) (pixel ls 14 w h))"
| "joint_vectors L_elbow ls w h =
     (vsub (pixel ls 14 w h) (pixel ls 12 w h), vsub (pixel ls 16 w h) (pixel ls 14 w h))"
| "joint_vectors R_hip_side ls w h =
     (vsub (pixel ls 23 w h) (fst (pixel ls 23 w h), snd (pixel ls 23 w h) + 100),
      vsub (pixel ls 23 w h) (pixel ls 25 w h))"
| "joint_vectors L_hip_side ls w h =
     (vsub (pixel ls 24 w h) (fst (pixel ls 24 w h), snd (pixel ls 24 w h) + 100),
      vsub (pixel ls 24 w h) (pixel ls 26 w h))"
| "joint_vectors R_knee ls w h =
     (vsub (pixel ls 23 w h) (pixel ls 25 w h), vsub (pixel ls 27 w h) (pixel ls 25 w h))"
| "joint_vectors L_knee ls w h =
     (vsub (pixel ls 24 w h) (pixel ls 26 w h), vsub (pixel ls 28 w h) (pixel ls 26 w h))"

definition joint_angle :: "joint \<Rightarrow> landmark list \<Rightarrow> int \<Rightarrow> int \<Rightarrow> int option" where
  "joint_angle j ls w h =
     vector_2d_angle (fst (joint_vectors j ls w h)) (snd (joint_vectors j ls w h))"

text \<open>A joint is degenerate in a frame when its angle gets a zero-magnitude vector.\<close>

definition degenerate :: "joint \<Rightarrow> landmark list \<Rightarrow> int \<Rightarrow> int \<Rightarrow> bool" where
  "degenerate j ls w h =
     (fst (joint_vectors j ls w h) = (0, 0) \<or> snd (joint_vectors j ls w h) = (0, 0))"

definition arm_defined :: "landmark list \<Rightarrow> int \<Rightarrow> int \<Rightarrow> bool" where
  "arm_defined ls w h =
     (\<not> degenerate R_shoulder_side ls w h \<and> \<not> degenerate R_elbow ls w h
      \<and> \<not> degenerate L_shoulder_side ls w h \<and> \<not> degenerate L_elbow ls w h)"

text \<open>
  The candidate position of a joint before smoothing,
  \<^verbatim>\<open>clamp_servo(int(val_map(x, in_min, in_max, out_min, out_max)))\<close> with a non-empty input
  range, and the candidates \<open>(servo, position, name)\<close> of each method in the order the
  method handles them.
\<close>

definition target :: "real \<Rightarrow> real \<Rightarrow> real \<Rightarrow> real \<Rightarrow> real \<Rightarrow> int" where
  "target x in_min in_max out_min out_max =
     clamp_servo (py_int ((x - in_min) * (out_max - out_min) / (in_max - in_min) + out_min)) 125 875"

type_synonym candidate = "int \<times> int \<times> string"

definition arm_cands :: "landmark list \<Rightarrow> int \<Rightarrow> int \<Rightarrow> candidate list" where
  "arm_cands ls w h =
     (if arm_defined ls w h then
        [(15, target (real_of_int (the (joint_angle R_shoulder_side ls w h))) (- 90) 90 125 875,
            ''R_shoulder_side''),
         (14, target (real_of_int (the (joint_angle R_elbow ls w h))) (- 90) 90 125 875,
            ''R_elbow''),
         (7, target (real_of_int (the (joint_angle L_shoulder_side ls w h))) (- 90) 90 125 875,
            ''L_shoulder_side''),
         (6, target (real_of_int (the (joint_angle L_elbow ls w h))) (- 90) 90 125 875,
            ''L_elbow'')]
      else [])"

definition fwd_cands :: "landmark list \<Rightarrow> candidate list" where
  "fwd_cands ls =
     [(16, target (lm_z (ls ! 11) - lm_z (ls ! 15)) (- 0.3) 0.3 500 125, ''R_shoulder_fwd''),
      (8, target (lm_z (ls ! 12) - lm_z (ls ! 16)) (- 0.3) 0.3 500 900, ''L_shoulder_fwd'')]"

definition hip_side_cands :: "landmark list \<Rightarrow> int \<Rightarrow> int \<Rightarrow> candidate list" where
  "hip_side_cands ls w h =
     (case joint_angle R_hip_side ls w h of
        Some a \<Rightarrow> [(4, target (real_of_int a) (- 45) 45 450 750, ''R_hip_side'')]
      | None \<Rightarrow> [])
     @ (case joint_angle L_hip_side ls w h of
          Some a \<Rightarrow> [(12, target (real_of_int a) (- 45) 45 250 550, ''L_hip_side'')]
        | None \<Rightarrow> [])"

definition hip_front_cands :: "landmark list \<Rightarrow> candidate list" where
  "hip_front_cands ls =
     [(3, target (lm_z (ls ! 23) - lm_z (ls ! 25)) (- 0.2) 0.2 700 300, ''R_hip_front''),
      (11, target (lm_z (ls ! 24) - lm_z (ls ! 26)) (- 0.2) 0.2 300 700, ''L_hip_front'')]"

definition knee_cands :: "landmark list \<Rightarrow> int \<Rightarrow> int \<Rightarrow> candidate list" where
  "knee_cands ls w h =
     (case joint_angle R_knee ls w h of
        Some a \<Rightarrow> [(2, target (real_of_int \<bar>a\<bar>) 90 180 150 390, ''R_knee'')]
      | None \<Rightarrow> [])
     @ (case joint_angle L_knee ls w h of
          Some a \<Rightarrow> [(10, target (real_of_int \<bar>a\<bar>) 90 180 850 610, ''L_knee'')]
        | None \<Rightarrow> [])"

definition all_cands :: "bool \<Rightarrow> landmark list \<Rightarrow> int \<Rightarrow> int \<Rightarrow> candidate list" where
  "all_cands fb ls w h =
     arm_cands ls w h @ fwd_cands ls
     @ (if fb then hip_side_cands ls w h @ hip_front_cands ls @ knee_cands ls w h else [])"

text \<open>
  What \<open>smooth_servo\<close> emits given the stored entry, and the filter run over a list of
  candidates.
\<close>

definition smooth_value :: "int option \<Rightarrow> int \<Rightarrow> int" where
  "smooth_value prev v =
     (case prev of
        Some p \<Rightarrow> if \<bar>p - v\<bar> < SMOOTHING_THRESHOLD then p else v
      | None \<Rightarrow> v)"

fun smooth_all :: "candidate list \<Rightarrow> mimic \<Rightarrow> servo_command list \<times> mimic" where
  "smooth_all [] self = ([], self)"
| "smooth_all (c # cs) self =
     (\<lparr>servo_id = fst c, position = fst (smooth_servo self (fst c) (fst (snd c))),
        name = snd (snd c)\<rparr>
        # fst (smooth_all cs (snd (smooth_servo self (fst c) (fst (snd c))))),
      snd (smooth_all cs (snd (smooth_servo self (fst c) (fst (snd c))))))"

text \<open>The landmark count a mode needs: indices up to 16 for the arms, up to 28 with legs.\<close>

definition needed :: "bool \<Rightarrow> nat" where
  "needed fb = (if fb then 29 else 17)"

text \<open>
  The commands a call hands to its caller (none when it raises), and the command for one
  servo among them.
\<close>

definition emitted :: "(py_error + servo_command list option) \<times> mimic \<Rightarrow> servo_command list" where
  "emitted r = (case fst r of Inr (Some out) \<Rightarrow> out | Inr None \<Rightarrow> [] | Inl e \<Rightarrow> [])"


definition servo_ids :: "servo_command list \<Rightarrow> int set" where
  "servo_ids out = servo_id ` set out"

text \<open>
  The servos each mode tracks, as the servo map of the command line help lists them:
  arms 6, 7, 8, 14, 15, 16; hips 3, 4, 11, 12; knees 2, 10.
\<close>

definition tracked :: "bool \<Rightarrow> int set" where
  "tracked fb = {6, 7, 8, 14, 15, 16} \<union> (if fb then {3, 4, 11, 12, 2, 10} else {})"

text \<open>Positions within the servo limits, and a smoothing memory holding only such.\<close>

definition in_range :: "int \<Rightarrow> bool" where
  "in_range p = (SERVO_MIN \<le> p \<and> p \<le> SERVO_MAX)"

definition memory_ok :: "mimic \<Rightarrow> bool" where
  "memory_ok self = (\<forall>sid p. last_servos self sid = Some p \<longrightarrow> in_range p)"

text \<open>
  The engines a session can reach: the constructed one, then any number of processed
  frames (whether the call returns or raises) and mode switches.
\<close>

inductive reachable :: "mimic \<Rightarrow> bool" where
  start: "reachable (init_mimic fb)"
| frame: "reachable self \<Longrightarrow> reachable (snd (calculate_servo_commands ls w h self))"
| switch: "reachable self \<Longrightarrow> reachable (self\<lparr>full_body := fb\<rparr>)"

section \<open>Sample frames\<close>

text \<open>
  A 640 by 480 frame of a person standing with the upper arms level and the forearms
  hanging: every planar joint has a defined angle, every depth is 0. The coordinates are
  multiples of 1/8, so the pixel positions are exact.
\<close>

definition lm :: "real \<Rightarrow> real \<Rightarrow> real \<Rightarrow> landmark" where
  "lm a b c = \<lparr>lm_x = a, lm_y = b, lm_z = c\<rparr>"

definition stand_landmark :: "nat \<Rightarrow> landmark" where
  "stand_landmark i =
     (if i = 11 then lm 0.625 0.25 0 else if i = 12 then lm 0.375 0.25 0
      else if i = 13 then lm 0.75 0.25 0 else if i = 14 then lm 0.25 0.25 0
      else if i = 15 then lm 0.75 0.5 0 else if i = 16 then lm 0.25 0.5 0
      else if i = 23 then lm 0.625 0.5 0 else if i = 24 then lm 0.375 0.5 0
      else if i = 25 then lm 0.625 0.75 0 else if i = 26 then lm 0.375 0.75 0
      else if i = 27 then lm 0.625 1 0 else if i = 28 then lm 0.375 1 0
      else lm 0 0 0)"

definition stand_pose :: "landmark list" where
  "stand_pose = map stand_landmark [0..<33]"



section \<open>Properties of the leaf functions\<close>

lemma py_int_mono: "a \<le> b \<Longrightarrow> py_int a \<le> py_int b"
proof -
  assume ab: "a \<le> b"
  have fl: "\<lfloor>a\<rfloor> \<le> \<lfloor>b\<rfloor>" and ce: "\<lceil>a\<rceil> \<le> \<lceil>b\<rceil>"
    using ab by (simp_all add: floor_mono ceiling_mono)
  have "a < 0 \<Longrightarrow> 0 \<le> b \<Longrightarrow> \<lceil>a\<rceil> \<le> \<lfloor>b\<rfloor>"
  proof -
    assume "a < 0" "0 \<le> b"
    then have "\<lceil>a\<rceil> \<le> 0" "0 \<le> \<lfloor>b\<rfloor>" by (simp_all add: ceiling_le_zero)
    then show ?thesis by linarith
  qed
  with fl ce ab show ?thesis unfolding py_int_def by auto
qed

lemma py_int_of_int: "py_int (real_of_int k) = k"
  by (simp add: py_int_def)

lemma linalg_norm_zero_iff: "linalg_norm v = 0 \<longleftrightarrow> v = (0, 0)"
proof -
  obtain a b where v: "v = (a, b)" by (cases v)
  have "a * a + b * b = 0 \<longleftrightarrow> a = 0 \<and> b = 0"
    by (metis sum_squares_eq_zero_iff)
  then show ?thesis
    unfolding v linalg_norm_def by (simp del: of_int_add of_int_mult)
qed

lemma linalg_norm_nonneg: "0 \<le> linalg_norm v"
proof -
  have "0 \<le> fst v * fst v + snd v * snd v" by simp
  then show ?thesis unfolding linalg_norm_def by (simp del: of_int_add of_int_mult)
qed

lemma vector_2d_angle_None_iff:
  "vector_2d_angle v1 v2 = None \<longleftrightarrow> v1 = (0, 0) \<or> v2 = (0, 0)"
  by (simp add: vector_2d_angle_def Let_def linalg_norm_zero_iff)





lemma np_arctan2_scale: "0 < d \<Longrightarrow> np_arctan2 (y / d) (x / d) = np_arctan2 y x"
  by (simp add: np_arctan2_def zero_less_divide_iff divide_less_0_iff zero_le_divide_iff)






lemma lagrange_identity:
  "real_of_int (np_dot v1 v2) ^ 2 + real_of_int (np_cross v1 v2) ^ 2
     = (linalg_norm v1 * linalg_norm v2) ^ 2"
proof -
  obtain a b where v1: "v1 = (a, b)" by (cases v1)
  obtain c e where v2: "v2 = (c, e)" by (cases v2)
  have n1: "linalg_norm v1 ^ 2 = real_of_int (a * a + b * b)"
    unfolding v1 linalg_norm_def by (simp del: of_int_add of_int_mult)
  have n2: "linalg_norm v2 ^ 2 = real_of_int (c * c + e * e)"
    unfolding v2 linalg_norm_def by (simp del: of_int_add of_int_mult)
  have "(linalg_norm v1 * linalg_norm v2) ^ 2 = real_of_int ((a * a + b * b) * (c * c + e * e))"
    by (simp only: power_mult_distrib n1 n2 of_int_mult)
  also have "(a * a + b * b) * (c * c + e * e) = (a * c + b * e) ^ 2 + (a * e - b * c) ^ 2"
    by (simp add: power2_eq_square algebra_simps)
  finally show ?thesis by (simp add: v1 v2 np_dot_def np_cross_def)
qed

lemma unit_components:
  assumes "linalg_norm v1 * linalg_norm v2 \<noteq> 0"
  shows "\<bar>real_of_int (np_dot v1 v2) / (linalg_norm v1 * linalg_norm v2)\<bar> \<le> 1"
    and "\<bar>real_of_int (np_cross v1 v2) / (linalg_norm v1 * linalg_norm v2)\<bar> \<le> 1"
proof -
  let ?d = "linalg_norm v1 * linalg_norm v2"
  have d: "0 < ?d"
    using assms linalg_norm_nonneg [of v1] linalg_norm_nonneg [of v2]
    by (simp add: zero_less_mult_iff less_le)
  have "real_of_int (np_dot v1 v2) ^ 2 \<le> ?d ^ 2"
    using lagrange_identity [of v1 v2] zero_le_power2 [of "real_of_int (np_cross v1 v2)"]
    by linarith
  then have "\<bar>real_of_int (np_dot v1 v2)\<bar> \<le> ?d"
    using d by (simp add: abs_le_square_iff [symmetric])
  then show "\<bar>real_of_int (np_dot v1 v2) / ?d\<bar> \<le> 1" using d by simp
  have "real_of_int (np_cross v1 v2) ^ 2 \<le> ?d ^ 2"
    using lagrange_identity [of v1 v2] zero_le_power2 [of "real_of_int (np_dot v1 v2)"]
    by linarith
  then have "\<bar>real_of_int (np_cross v1 v2)\<bar> \<le> ?d"
    using d by (simp add: abs_le_square_iff [symmetric])
  then show "\<bar>real_of_int (np_cross v1 v2) / ?d\<bar> \<le> 1" using d by simp
qed

lemma np_clip_unit: "\<bar>a\<bar> \<le> 1 \<Longrightarrow> np_clip a (- 1) 1 = a"
  by (auto simp: np_clip_def min_def max_def abs_le_iff)

lemma vector_2d_angle_atan2:
  assumes "v1 \<noteq> (0, 0)" "v2 \<noteq> (0, 0)"
  shows "vector_2d_angle v1 v2
    = Some (py_int (np_degrees (np_arctan2 (real_of_int (np_cross v1 v2)) (real_of_int (np_dot v1 v2)))))"
proof -
  let ?d = "linalg_norm v1 * linalg_norm v2"
  have nz: "?d \<noteq> 0" using assms by (simp add: linalg_norm_zero_iff)
  then have d: "0 < ?d"
    using linalg_norm_nonneg [of v1] linalg_norm_nonneg [of v2]
    by (simp add: zero_less_mult_iff less_le)
  show ?thesis
    unfolding vector_2d_angle_def Let_def
    using nz unit_components [OF nz] np_arctan2_scale [OF d]
    by (simp add: np_clip_unit)
qed



subsection \<open>Range mapping\<close>




subsection \<open>The signed angle\<close>




section \<open>The deadband filter\<close>

text \<open>
  C4. With a stored previous position \<open>P\<close> and a candidate \<open>P'\<close> closer to it than the
  threshold, the filter emits \<open>P\<close> and leaves the memory as it is; with nothing stored
  the candidate is emitted and stored. With threshold 25 and previous 500, candidate 510
  gives 500 and candidate 530 gives 530, which becomes the stored value.
\<close>

theorem smooth_servo_law:
  "(last_servos self sid = Some P \<and> \<bar>P - P'\<bar> < SMOOTHING_THRESHOLD
      \<longrightarrow> smooth_servo self sid P' = (P, self))
   \<and> (last_servos self sid = None
      \<longrightarrow> smooth_servo self sid P' = (P', self\<lparr>last_servos := (last_servos self)(sid \<mapsto> P')\<rparr>))
   \<and> SMOOTHING_THRESHOLD = 25
   \<and> (last_servos self sid = Some 500
      \<longrightarrow> smooth_servo self sid 510 = (500, self)
        \<and> fst (smooth_servo self sid 530) = 530
        \<and> last_servos (snd (smooth_servo self sid 530)) sid = Some 530)"
  by (simp add: smooth_servo_def SMOOTHING_THRESHOLD_def)

theorem smooth_servo_law_witness:
  "last_servos \<lparr>full_body = True, last_servos = [7 \<mapsto> 500]\<rparr> 7 = Some 500
   \<and> \<bar>500 - 510\<bar> < SMOOTHING_THRESHOLD
   \<and> smooth_servo \<lparr>full_body = True, last_servos = [7 \<mapsto> 500]\<rparr> 7 510
       = (500, \<lparr>full_body = True, last_servos = [7 \<mapsto> 500]\<rparr>)
   \<and> fst (smooth_servo \<lparr>full_body = True, last_servos = [7 \<mapsto> 500]\<rparr> 7 530) = 530
   \<and> last_servos (snd (smooth_servo \<lparr>full_body = True, last_servos = [7 \<mapsto> 500]\<rparr> 7 530)) 7
       = Some 530
   \<and> last_servos (init_mimic True) 7 = None
   \<and> smooth_servo (init_mimic True) 7 510
       = (510, \<lparr>full_body = True, last_servos = [7 \<mapsto> 510]\<rparr>)"
proof -
  have a: "smooth_servo \<lparr>full_body = True, last_servos = [7 \<mapsto> 500]\<rparr> 7 510
       = (500, \<lparr>full_body = True, last_servos = [7 \<mapsto> 500]\<rparr>)
    \<and> fst (smooth_servo \<lparr>full_body = True, last_servos = [7 \<mapsto> 500]\<rparr> 7 530) = 530
    \<and> last_servos (snd (smooth_servo \<lparr>full_body = True, last_servos = [7 \<mapsto> 500]\<rparr> 7 530)) 7
       = Some 530"
    using smooth_servo_law [of "\<lparr>full_body = True, last_servos = [7 \<mapsto> 500]\<rparr>" 7 500 510]
    by (simp add: SMOOTHING_THRESHOLD_def)
  have b: "smooth_servo (init_mimic True) 7 510
       = (510, \<lparr>full_body = True, last_servos = [7 \<mapsto> 510]\<rparr>)"
    using smooth_servo_law [of "init_mimic True" 7 500 510]
    by (simp add: init_mimic_def)
  have c: "last_servos (init_mimic True) 7 = None" "\<bar>500 - 510\<bar> < SMOOTHING_THRESHOLD"
    by (simp_all add: init_mimic_def SMOOTHING_THRESHOLD_def)
  from a b c show ?thesis by simp
qed

section \<open>The methods as the filter run over their candidates\<close>

text \<open>
  Each method either raises \<open>IndexError\<close> on a landmark list that is too short or
  returns the commands the filter gives for the method's candidates.
\<close>

lemma smooth_servo_fst: "fst (smooth_servo self sid v) = smooth_value (last_servos self sid) v"
  by (simp add: smooth_servo_def smooth_value_def split: option.splits)

lemma smooth_servo_snd:
  "snd (smooth_servo self sid v)
     = self\<lparr>last_servos := (last_servos self)(sid \<mapsto> smooth_value (last_servos self sid) v)\<rparr>"
  by (auto simp: smooth_servo_def smooth_value_def map_upd_triv split: option.splits)

lemma get_point_eq:
  "get_point ls idx w h = (if idx < length ls then Inr (pixel ls idx w h) else Inl IndexError)"
  by (simp add: get_point_def landmark_at_def pixel_def)

lemma servo_step_eq:
  "in_min \<noteq> in_max \<Longrightarrow>
   servo_step sid nm x in_min in_max out_min out_max self
     = (Inr \<lparr>servo_id = sid,
             position = fst (smooth_servo self sid (target x in_min in_max out_min out_max)),
             name = nm\<rparr>,
        snd (smooth_servo self sid (target x in_min in_max out_min out_max)))"
  by (simp add: servo_step_def bind_def lift_def val_map_def target_def case_prod_beta)

lemma joint_angle_None_iff: "joint_angle j ls w h = None \<longleftrightarrow> degenerate j ls w h"
  by (simp add: joint_angle_def degenerate_def vector_2d_angle_None_iff)

lemma calculate_arm_servos_short:
  "length ls \<le> 16 \<Longrightarrow> calculate_arm_servos ls w h self = (Inl IndexError, self)"
  by (simp add: calculate_arm_servos_def get_point_eq bind_def lift_def)

lemma calculate_arm_servos_eq:
  "16 < length ls \<Longrightarrow>
   calculate_arm_servos ls w h self
     = (Inr (fst (smooth_all (arm_cands ls w h) self)), snd (smooth_all (arm_cands ls w h) self))"
  by (simp add: calculate_arm_servos_def get_point_eq bind_def lift_def ret_def Let_def
      servo_step_eq SERVO_MIN_def SERVO_MAX_def arm_cands_def arm_defined_def
      joint_angle_None_iff [symmetric] joint_angle_def)


lemma calculate_shoulder_forward_servos_short:
  "length ls \<le> 16 \<Longrightarrow> calculate_shoulder_forward_servos ls w h self = (Inl IndexError, self)"
  by (simp add: calculate_shoulder_forward_servos_def landmark_at_def bind_def lift_def)

lemma calculate_shoulder_forward_servos_eq:
  "16 < length ls \<Longrightarrow>
   calculate_shoulder_forward_servos ls w h self
     = (Inr (fst (smooth_all (fwd_cands ls) self)), snd (smooth_all (fwd_cands ls) self))"
  by (simp add: calculate_shoulder_forward_servos_def landmark_at_def bind_def lift_def ret_def
      Let_def servo_step_eq fwd_cands_def)

lemma smooth_all_append:
  "smooth_all (xs @ ys) self
     = (fst (smooth_all xs self) @ fst (smooth_all ys (snd (smooth_all xs self))),
        snd (smooth_all ys (snd (smooth_all xs self))))"
  by (induction xs arbitrary: self) simp_all

lemma calculate_hip_servos_short:
  "length ls \<le> 26 \<Longrightarrow> calculate_hip_servos ls w h self = (Inl IndexError, self)"
  by (simp add: calculate_hip_servos_def get_point_eq bind_def lift_def)

lemma calculate_hip_servos_eq:
  "26 < length ls \<Longrightarrow>
   calculate_hip_servos ls w h self
     = (Inr (fst (smooth_all (hip_side_cands ls w h @ hip_front_cands ls) self)),
        snd (smooth_all (hip_side_cands ls w h @ hip_front_cands ls) self))"
  by (simp add: calculate_hip_servos_def get_point_eq landmark_at_def bind_def lift_def ret_def
      Let_def servo_step_eq hip_side_cands_def hip_front_cands_def joint_angle_def
      smooth_all_append split: option.splits)

lemma calculate_knee_servos_short:
  "length ls \<le> 28 \<Longrightarrow> calculate_knee_servos ls w h self = (Inl IndexError, self)"
  by (simp add: calculate_knee_servos_def get_point_eq bind_def lift_def)

lemma calculate_knee_servos_eq:
  "28 < length ls \<Longrightarrow>
   calculate_knee_servos ls w h self
     = (Inr (fst (smooth_all (knee_cands ls w h) self)), snd (smooth_all (knee_cands ls w h) self))"
  by (simp add: calculate_knee_servos_def get_point_eq bind_def lift_def ret_def
      Let_def servo_step_eq knee_cands_def joint_angle_def split: option.splits)

lemma smooth_all_full_body: "full_body (snd (smooth_all cs self)) = full_body self"
  by (induction cs arbitrary: self) (simp_all add: smooth_servo_snd)

lemma smooth_all_length: "length (fst (smooth_all cs self)) = length cs"
  by (induction cs arbitrary: self) simp_all

lemma smooth_all_Nil_iff: "fst (smooth_all cs self) = [] \<longleftrightarrow> cs = []"
  using smooth_all_length [of cs self] by (metis length_0_conv)


text \<open>The whole call, in each of its outcomes.\<close>

lemma calculate_servo_commands_eq:
  "needed (full_body self) \<le> length ls \<Longrightarrow>
   calculate_servo_commands ls w h self
     = (Inr (Some (fst (smooth_all (all_cands (full_body self) ls w h) self))),
        snd (smooth_all (all_cands (full_body self) ls w h) self))"
proof (cases "full_body self")
  case False
  assume "needed (full_body self) \<le> length ls"
  with False have len: "16 < length ls" by (simp add: needed_def)
  have ne: "arm_cands ls w h @ fwd_cands ls \<noteq> []" by (simp add: fwd_cands_def)
  show ?thesis
    using False ne
    by (simp add: calculate_servo_commands_def bind_def ret_def get_full_body_def
        calculate_arm_servos_eq [OF len] calculate_shoulder_forward_servos_eq [OF len]
        smooth_all_full_body all_cands_def smooth_all_append smooth_all_Nil_iff)
next
  case True
  assume "needed (full_body self) \<le> length ls"
  with True have len: "16 < length ls" "26 < length ls" "28 < length ls"
    by (simp_all add: needed_def)
  have ne: "fwd_cands ls \<noteq> []" by (simp add: fwd_cands_def)
  show ?thesis
    using True ne
    by (simp add: calculate_servo_commands_def bind_def ret_def get_full_body_def
        calculate_arm_servos_eq [OF len(1)] calculate_shoulder_forward_servos_eq [OF len(1)]
        calculate_hip_servos_eq [OF len(2)] calculate_knee_servos_eq [OF len(3)]
        smooth_all_full_body all_cands_def smooth_all_append smooth_all_Nil_iff)
qed

lemma calculate_servo_commands_short:
  "length ls < needed (full_body self) \<Longrightarrow>
   fst (calculate_servo_commands ls w h self) = Inl IndexError
   \<and> (\<exists>cs. snd (calculate_servo_commands ls w h self) = snd (smooth_all cs self)
         \<and> set cs \<subseteq> set (all_cands (full_body self) ls w h))"
proof -
  assume short: "length ls < needed (full_body self)"
  have "length ls \<le> 16 \<or> (16 < length ls \<and> length ls \<le> 26 \<and> full_body self)
      \<or> (26 < length ls \<and> length ls \<le> 28 \<and> full_body self)"
  proof (cases "full_body self")
    case True
    with short have "length ls < 29" by (simp add: needed_def)
    with True show ?thesis by simp linarith
  next
    case False
    with short show ?thesis by (simp add: needed_def)
  qed
  then consider "length ls \<le> 16" | "16 < length ls" "length ls \<le> 26" "full_body self"
    | "26 < length ls" "length ls \<le> 28" "full_body self"
    by blast
  then show ?thesis
  proof cases
    case 1
    have "calculate_servo_commands ls w h self = (Inl IndexError, self)"
      by (simp add: calculate_servo_commands_def bind_def calculate_arm_servos_short [OF 1])
    moreover have "self = snd (smooth_all [] self)" by simp
    ultimately show ?thesis by (metis empty_set empty_subsetI fst_conv snd_conv)
  next
    case 2
    have "calculate_servo_commands ls w h self
        = (Inl IndexError, snd (smooth_all (arm_cands ls w h @ fwd_cands ls) self))"
      using 2(3)
      by (simp add: calculate_servo_commands_def bind_def ret_def get_full_body_def
          calculate_arm_servos_eq [OF 2(1)] calculate_shoulder_forward_servos_eq [OF 2(1)]
          calculate_hip_servos_short [OF 2(2)] smooth_all_full_body smooth_all_append)
    moreover have "set (arm_cands ls w h @ fwd_cands ls) \<subseteq> set (all_cands (full_body self) ls w h)"
      by (auto simp: all_cands_def)
    ultimately show ?thesis by (metis fst_conv snd_conv)
  next
    case 3
    from 3(1) have len: "16 < length ls" by simp
    have "calculate_servo_commands ls w h self
        = (Inl IndexError,
           snd (smooth_all (arm_cands ls w h @ fwd_cands ls
                             @ hip_side_cands ls w h @ hip_front_cands ls) self))"
      using 3(3)
      by (simp add: calculate_servo_commands_def bind_def ret_def get_full_body_def
          calculate_arm_servos_eq [OF len] calculate_shoulder_forward_servos_eq [OF len]
          calculate_hip_servos_eq [OF 3(1)] calculate_knee_servos_short [OF 3(2)]
          smooth_all_full_body smooth_all_append)
    moreover have "set (arm_cands ls w h @ fwd_cands ls @ hip_side_cands ls w h @ hip_front_cands ls)
        \<subseteq> set (all_cands (full_body self) ls w h)"
      using 3(3) by (auto simp: all_cands_def)
    ultimately show ?thesis by (metis fst_conv snd_conv)
  qed
qed

section \<open>The filter over a list of candidates\<close>

lemma smooth_value_idem: "smooth_value (Some (smooth_value prev v)) v = smooth_value prev v"
  by (simp add: smooth_value_def SMOOTHING_THRESHOLD_def split: option.splits)

lemma smooth_value_in_range:
  "in_range v \<Longrightarrow> (\<forall>p. prev = Some p \<longrightarrow> in_range p) \<Longrightarrow> in_range (smooth_value prev v)"
  by (simp add: smooth_value_def split: option.splits)

lemma smooth_servo_memory_ok:
  "memory_ok self \<Longrightarrow> in_range v \<Longrightarrow>
   in_range (fst (smooth_servo self sid v)) \<and> memory_ok (snd (smooth_servo self sid v))"
  unfolding smooth_servo_fst smooth_servo_snd
  by (simp add: memory_ok_def smooth_value_in_range)

lemma smooth_all_memory_ok:
  "memory_ok self \<Longrightarrow> \<forall>c \<in> set cs. in_range (fst (snd c)) \<Longrightarrow>
   (\<forall>c \<in> set (fst (smooth_all cs self)). in_range (position c))
   \<and> memory_ok (snd (smooth_all cs self))"
proof (induction cs arbitrary: self)
  case Nil
  then show ?case by simp
next
  case (Cons c cs)
  from Cons.prems have step: "in_range (fst (smooth_servo self (fst c) (fst (snd c))))"
      "memory_ok (snd (smooth_servo self (fst c) (fst (snd c))))"
    using smooth_servo_memory_ok [of self "fst (snd c)" "fst c"] by simp_all
  from Cons.prems have "\<forall>c \<in> set cs. in_range (fst (snd c))" by simp
  from Cons.IH [OF step(2) this] step(1) show ?case by simp
qed

lemma target_in_range: "in_range (target x a b c d)"
  by (simp add: target_def clamp_servo_def in_range_def SERVO_MIN_def SERVO_MAX_def)

lemma all_cands_in_range: "\<forall>c \<in> set (all_cands fb ls w h). in_range (fst (snd c))"
  by (auto simp: all_cands_def arm_cands_def fwd_cands_def hip_side_cands_def hip_front_cands_def
      knee_cands_def target_in_range split: option.splits if_splits)

lemma smooth_all_ids: "map servo_id (fst (smooth_all cs self)) = map fst cs"
  by (induction cs arbitrary: self) simp_all

lemma smooth_all_names: "map name (fst (smooth_all cs self)) = map (\<lambda>c. snd (snd c)) cs"
  by (induction cs arbitrary: self) simp_all

text \<open>With distinct servos, each candidate meets the memory as it was before the frame.\<close>

lemma smooth_all_last_servos_other:
  "sid \<notin> fst ` set cs \<Longrightarrow> last_servos (snd (smooth_all cs self)) sid = last_servos self sid"
  by (induction cs arbitrary: self) (simp_all add: smooth_servo_snd)

lemma smooth_all_output:
  "distinct (map fst cs) \<Longrightarrow>
   fst (smooth_all cs self)
     = map (\<lambda>c. \<lparr>servo_id = fst c, position = smooth_value (last_servos self (fst c)) (fst (snd c)),
                 name = snd (snd c)\<rparr>) cs"
proof (induction cs arbitrary: self)
  case Nil
  then show ?case by simp
next
  case (Cons c cs)
  let ?s1 = "snd (smooth_servo self (fst c) (fst (snd c)))"
  from Cons.prems have d: "distinct (map fst cs)" and nin: "fst c \<notin> fst ` set cs" by simp_all
  have "\<forall>c' \<in> set cs. last_servos ?s1 (fst c') = last_servos self (fst c')"
  proof
    fix c' assume "c' \<in> set cs"
    with nin have "fst c' \<noteq> fst c" by (metis imageI)
    then show "last_servos ?s1 (fst c') = last_servos self (fst c')"
      by (simp add: smooth_servo_snd)
  qed
  then have "map (\<lambda>c'. \<lparr>servo_id = fst c',
        position = smooth_value (last_servos ?s1 (fst c')) (fst (snd c')), name = snd (snd c')\<rparr>) cs
      = map (\<lambda>c'. \<lparr>servo_id = fst c',
        position = smooth_value (last_servos self (fst c')) (fst (snd c')), name = snd (snd c')\<rparr>) cs"
    by simp
  with Cons.IH [OF d, of ?s1] show ?case by (simp add: smooth_servo_fst)
qed

lemma smooth_all_stored:
  "distinct (map fst cs) \<Longrightarrow> c \<in> set cs \<Longrightarrow>
   last_servos (snd (smooth_all cs self)) (fst c)
     = Some (smooth_value (last_servos self (fst c)) (fst (snd c)))"
proof (induction cs arbitrary: self)
  case Nil
  then show ?case by simp
next
  case (Cons a cs)
  let ?s1 = "snd (smooth_servo self (fst a) (fst (snd a)))"
  from Cons.prems have d: "distinct (map fst cs)" and nin: "fst a \<notin> fst ` set cs" by simp_all
  show ?case
  proof (cases "c = a")
    case True
    then show ?thesis
      using smooth_all_last_servos_other [OF nin, of ?s1]
      by (simp add: smooth_servo_snd)
  next
    case False
    with Cons.prems have mem: "c \<in> set cs" by simp
    with nin have "fst c \<noteq> fst a" by (metis imageI)
    then have "last_servos ?s1 (fst c) = last_servos self (fst c)"
      by (simp add: smooth_servo_snd)
    with Cons.IH [OF d mem, of ?s1] show ?thesis by simp
  qed
qed

lemma smooth_all_idem:
  assumes "distinct (map fst cs)"
  shows "fst (smooth_all cs (snd (smooth_all cs self))) = fst (smooth_all cs self)"
proof -
  have "\<forall>c \<in> set cs. smooth_value (last_servos (snd (smooth_all cs self)) (fst c)) (fst (snd c))
      = smooth_value (last_servos self (fst c)) (fst (snd c))"
    using smooth_all_stored [OF assms] by (simp add: smooth_value_idem)
  then show ?thesis
    unfolding smooth_all_output [OF assms] by simp
qed

lemma arm_cands_ids:
  "map fst (arm_cands ls w h) = (if arm_defined ls w h then [15, 14, 7, 6] else [])"
  by (simp add: arm_cands_def)

lemma fwd_cands_ids: "map fst (fwd_cands ls) = [16, 8]"
  by (simp add: fwd_cands_def)

lemma hip_side_cands_ids:
  "map fst (hip_side_cands ls w h)
     = (if degenerate R_hip_side ls w h then [] else [4])
       @ (if degenerate L_hip_side ls w h then [] else [12])"
  by (auto simp: hip_side_cands_def joint_angle_None_iff [symmetric] split: option.splits)

lemma hip_front_cands_ids: "map fst (hip_front_cands ls) = [3, 11]"
  by (simp add: hip_front_cands_def)

lemma knee_cands_ids:
  "map fst (knee_cands ls w h)
     = (if degenerate R_knee ls w h then [] else [2])
       @ (if degenerate L_knee ls w h then [] else [10])"
  by (auto simp: knee_cands_def joint_angle_None_iff [symmetric] split: option.splits)

lemma all_cands_ids:
  "map fst (all_cands fb ls w h)
     = (if arm_defined ls w h then [15, 14, 7, 6] else []) @ [16, 8]
       @ (if fb then
            (if degenerate R_hip_side ls w h then [] else [4])
            @ (if degenerate L_hip_side ls w h then [] else [12])
            @ [3, 11]
            @ (if degenerate R_knee ls w h then [] else [2])
            @ (if degenerate L_knee ls w h then [] else [10])
          else [])"
  by (simp add: all_cands_def arm_cands_ids fwd_cands_ids hip_side_cands_ids hip_front_cands_ids
      knee_cands_ids)

lemma all_cands_distinct: "distinct (map fst (all_cands fb ls w h))"
  unfolding all_cands_ids by auto

section \<open>The sample frames evaluated\<close>

lemma stand_pose_length: "length stand_pose = 33"
  by (simp add: stand_pose_def)

lemma stand_pose_nth: "i < 33 \<Longrightarrow> stand_pose ! i = stand_landmark i"
  by (simp add: stand_pose_def)

lemma py_int_numeral: "py_int (numeral k) = numeral k" "py_int 0 = 0"
  by (simp_all add: py_int_def)

lemma stand_pose_pixels:
  "pixel stand_pose 11 640 480 = (400, 120)" "pixel stand_pose 12 640 480 = (240, 120)"
  "pixel stand_pose 13 640 480 = (480, 120)" "pixel stand_pose 14 640 480 = (160, 120)"
  "pixel stand_pose 15 640 480 = (480, 240)" "pixel stand_pose 16 640 480 = (160, 240)"
  "pixel stand_pose 23 640 480 = (400, 240)" "pixel stand_pose 24 640 480 = (240, 240)"
  "pixel stand_pose 25 640 480 = (400, 360)" "pixel stand_pose 26 640 480 = (240, 360)"
  "pixel stand_pose 27 640 480 = (400, 480)" "pixel stand_pose 28 640 480 = (240, 480)"
  by (simp_all add: pixel_def stand_pose_nth stand_landmark_def lm_def py_int_numeral)

text \<open>Angles between vectors along the axes.\<close>

lemma angle_parallel_x:
  "0 < a * b \<Longrightarrow> vector_2d_angle (a, 0) (b, 0) = Some 0"
  "a * b < 0 \<Longrightarrow> vector_2d_angle (a, 0) (b, 0) = Some 180"
proof -
  have eq: "vector_2d_angle (a, 0) (b, 0)
      = Some (py_int (np_degrees (np_arctan2 (real_of_int (np_cross (a, 0) (b, 0)))
                                               (real_of_int (np_dot (a, 0) (b, 0))))))"
    if "a * b \<noteq> 0"
  proof (rule vector_2d_angle_atan2)
    from that show "(a, 0) \<noteq> (0, 0)" by auto
    from that show "(b, 0) \<noteq> (0, 0)" by auto
  qed
  show "vector_2d_angle (a, 0) (b, 0) = Some 0" if h: "0 < a * b"
  proof -
    from h have "a * b \<noteq> 0" by linarith
    from eq [OF this] h show ?thesis
      by (simp add: np_cross_def np_dot_def np_arctan2_def np_degrees_def py_int_def
          flip: of_int_mult)
  qed
  show "vector_2d_angle (a, 0) (b, 0) = Some 180" if h: "a * b < 0"
  proof -
    from h have "a * b \<noteq> 0" by linarith
    from eq [OF this] h show ?thesis
      by (simp add: np_cross_def np_dot_def np_arctan2_def np_degrees_def py_int_def
          flip: of_int_mult)
  qed
qed

lemma angle_parallel_y:
  "0 < a * b \<Longrightarrow> vector_2d_angle (0, a) (0, b) = Some 0"
  "a * b < 0 \<Longrightarrow> vector_2d_angle (0, a) (0, b) = Some 180"
proof -
  have eq: "vector_2d_angle (0, a) (0, b)
      = Some (py_int (np_degrees (np_arctan2 (real_of_int (np_cross (0, a) (0, b)))
                                               (real_of_int (np_dot (0, a) (0, b))))))"
    if "a * b \<noteq> 0"
  proof (rule vector_2d_angle_atan2)
    from that show "(0, a) \<noteq> (0, 0)" by auto
    from that show "(0, b) \<noteq> (0, 0)" by auto
  qed
  show "vector_2d_angle (0, a) (0, b) = Some 0" if h: "0 < a * b"
  proof -
    from h have "a * b \<noteq> 0" by linarith
    from eq [OF this] h show ?thesis
      by (simp add: np_cross_def np_dot_def np_arctan2_def np_degrees_def py_int_def
          flip: of_int_mult)
  qed
  show "vector_2d_angle (0, a) (0, b) = Some 180" if h: "a * b < 0"
  proof -
    from h have "a * b \<noteq> 0" by linarith
    from eq [OF this] h show ?thesis
      by (simp add: np_cross_def np_dot_def np_arctan2_def np_degrees_def py_int_def
          flip: of_int_mult)
  qed
qed

lemma angle_x_then_y:
  "0 < a * b \<Longrightarrow> vector_2d_angle (a, 0) (0, b) = Some 90"
  "a * b < 0 \<Longrightarrow> vector_2d_angle (a, 0) (0, b) = Some (- 90)"
proof -
  have eq: "vector_2d_angle (a, 0) (0, b)
      = Some (py_int (np_degrees (np_arctan2 (real_of_int (np_cross (a, 0) (0, b)))
                                               (real_of_int (np_dot (a, 0) (0, b))))))"
    if "a * b \<noteq> 0"
  proof (rule vector_2d_angle_atan2)
    from that show "(a, 0) \<noteq> (0, 0)" by auto
    from that show "(0, b) \<noteq> (0, 0)" by auto
  qed
  show "vector_2d_angle (a, 0) (0, b) = Some 90" if h: "0 < a * b"
  proof -
    from h have "a * b \<noteq> 0" by linarith
    from eq [OF this] h show ?thesis
      by (simp add: np_cross_def np_dot_def np_arctan2_def np_degrees_def py_int_def
          flip: of_int_mult)
  qed
  show "vector_2d_angle (a, 0) (0, b) = Some (- 90)" if h: "a * b < 0"
  proof -
    from h have "a * b \<noteq> 0" by linarith
    from eq [OF this] h show ?thesis
      by (simp add: np_cross_def np_dot_def np_arctan2_def np_degrees_def py_int_def
          flip: of_int_mult)
  qed
qed

lemma stand_pose_angles:
  "joint_angle R_shoulder_side stand_pose 640 480 = Some 0"
  "joint_angle R_elbow stand_pose 640 480 = Some 90"
  "joint_angle L_shoulder_side stand_pose 640 480 = Some 0"
  "joint_angle L_elbow stand_pose 640 480 = Some (- 90)"
  "joint_angle R_hip_side stand_pose 640 480 = Some 0"
  "joint_angle L_hip_side stand_pose 640 480 = Some 0"
  "joint_angle R_knee stand_pose 640 480 = Some 180"
  "joint_angle L_knee stand_pose 640 480 = Some 180"
  by (simp_all add: joint_angle_def stand_pose_pixels vsub_def angle_parallel_x angle_parallel_y
      angle_x_then_y)


lemma stand_pose_not_degenerate: "\<not> degenerate j stand_pose 640 480"
  using stand_pose_angles by (cases j) (simp_all flip: joint_angle_None_iff)

lemma stand_pose_depths: "i < 33 \<Longrightarrow> lm_z (stand_pose ! i) = 0"
  by (simp add: stand_pose_nth stand_landmark_def lm_def)

lemma stand_pose_cands:
  "all_cands True stand_pose 640 480 =
     [(15, 500, ''R_shoulder_side''), (14, 875, ''R_elbow''), (7, 500, ''L_shoulder_side''),
      (6, 125, ''L_elbow''), (16, 312, ''R_shoulder_fwd''), (8, 700, ''L_shoulder_fwd''),
      (4, 600, ''R_hip_side''), (12, 400, ''L_hip_side''), (3, 500, ''R_hip_front''),
      (11, 500, ''L_hip_front''), (2, 390, ''R_knee''), (10, 610, ''L_knee'')]"
  by (simp add: all_cands_def arm_cands_def arm_defined_def stand_pose_not_degenerate
      fwd_cands_def hip_side_cands_def hip_front_cands_def knee_cands_def stand_pose_angles
      stand_pose_depths target_def clamp_servo_def py_int_def)

lemma stand_pose_output:
  "calculate_servo_commands stand_pose 640 480 (init_mimic True) =
     (Inr (Some
       [\<lparr>servo_id = 15, position = 500, name = ''R_shoulder_side''\<rparr>,
        \<lparr>servo_id = 14, position = 875, name = ''R_elbow''\<rparr>,
        \<lparr>servo_id = 7, position = 500, name = ''L_shoulder_side''\<rparr>,
        \<lparr>servo_id = 6, position = 125, name = ''L_elbow''\<rparr>,
        \<lparr>servo_id = 16, position = 312, name = ''R_shoulder_fwd''\<rparr>,
        \<lparr>servo_id = 8, position = 700, name = ''L_shoulder_fwd''\<rparr>,
        \<lparr>servo_id = 4, position = 600, name = ''R_hip_side''\<rparr>,
        \<lparr>servo_id = 12, position = 400, name = ''L_hip_side''\<rparr>,
        \<lparr>servo_id = 3, position = 500, name = ''R_hip_front''\<rparr>,
        \<lparr>servo_id = 11, position = 500, name = ''L_hip_front''\<rparr>,
        \<lparr>servo_id = 2, position = 390, name = ''R_knee''\<rparr>,
        \<lparr>servo_id = 10, position = 610, name = ''L_knee''\<rparr>]),
      snd (smooth_all (all_cands True stand_pose 640 480) (init_mimic True)))"
proof -
  have len: "needed (full_body (init_mimic True)) \<le> length stand_pose"
    by (simp add: needed_def init_mimic_def stand_pose_length)
  have fb: "full_body (init_mimic True) = True" by (simp add: init_mimic_def)
  have "fst (smooth_all (all_cands True stand_pose 640 480) (init_mimic True))
      = map (\<lambda>c. \<lparr>servo_id = fst c,
                    position = smooth_value (last_servos (init_mimic True) (fst c)) (fst (snd c)),
                    name = snd (snd c)\<rparr>) (all_cands True stand_pose 640 480)"
    by (rule smooth_all_output) (rule all_cands_distinct)
  then show ?thesis
    unfolding calculate_servo_commands_eq [OF len] fb
    by (simp add: stand_pose_cands init_mimic_def smooth_value_def)
qed

section \<open>Servo limits and repeated frames\<close>

lemma emitted_eq:
  "needed (full_body self) \<le> length ls \<Longrightarrow>
   emitted (calculate_servo_commands ls w h self)
     = fst (smooth_all (all_cands (full_body self) ls w h) self)"
  by (simp add: emitted_def calculate_servo_commands_eq)

lemma emitted_short:
  "length ls < needed (full_body self) \<Longrightarrow> emitted (calculate_servo_commands ls w h self) = []"
  by (simp add: emitted_def calculate_servo_commands_short)

lemma calculate_servo_commands_full_body:
  "full_body (snd (calculate_servo_commands ls w h self)) = full_body self"
proof (cases "needed (full_body self) \<le> length ls")
  case True
  then show ?thesis by (simp add: calculate_servo_commands_eq smooth_all_full_body)
next
  case False
  then have "length ls < needed (full_body self)" by simp
  from calculate_servo_commands_short [OF this, of w h]
  show ?thesis by (metis smooth_all_full_body)
qed

lemma calculate_servo_commands_safe:
  assumes "memory_ok self"
  shows "memory_ok (snd (calculate_servo_commands ls w h self))
    \<and> (\<forall>c \<in> set (emitted (calculate_servo_commands ls w h self)). in_range (position c))"
proof (cases "needed (full_body self) \<le> length ls")
  case True
  from smooth_all_memory_ok [OF assms all_cands_in_range, of "full_body self" ls w h]
  show ?thesis
    by (simp add: emitted_def calculate_servo_commands_eq [OF True])
next
  case False
  then have short: "length ls < needed (full_body self)" by simp
  from calculate_servo_commands_short [OF short, of w h]
  obtain cs where cs: "snd (calculate_servo_commands ls w h self) = snd (smooth_all cs self)"
      "set cs \<subseteq> set (all_cands (full_body self) ls w h)"
    by blast
  from cs(2) all_cands_in_range [of "full_body self" ls w h]
  have "\<forall>c \<in> set cs. in_range (fst (snd c))" by blast
  from smooth_all_memory_ok [OF assms this] cs(1) show ?thesis
    by (simp add: emitted_short [OF short])
qed

lemma reachable_memory_ok: "reachable self \<Longrightarrow> memory_ok self"
proof (induction rule: reachable.induct)
  case (start fb)
  show ?case by (simp add: memory_ok_def init_mimic_def)
next
  case (frame self ls w h)
  then show ?case using calculate_servo_commands_safe by blast
next
  case (switch self fb)
  then show ?case by (simp add: memory_ok_def)
qed

text \<open>
  C1. Whatever frames and mode switches came before, every position stored in the
  smoothing memory and every position of a command the next call emits lies within
  \<open>SERVO_MIN = 125\<close> and \<open>SERVO_MAX = 875\<close>.
\<close>

theorem positions_within_servo_limits:
  assumes "reachable self"
  shows "(\<forall>sid p. last_servos self sid = Some p \<longrightarrow> SERVO_MIN \<le> p \<and> p \<le> SERVO_MAX)
    \<and> (\<forall>c \<in> set (emitted (calculate_servo_commands ls w h self)).
          SERVO_MIN \<le> position c \<and> position c \<le> SERVO_MAX)
    \<and> SERVO_MIN = 125 \<and> SERVO_MAX = 875"
proof -
  from assms have ok: "memory_ok self" by (rule reachable_memory_ok)
  from calculate_servo_commands_safe [OF ok, of ls w h] ok show ?thesis
    by (simp add: memory_ok_def in_range_def SERVO_MIN_def SERVO_MAX_def)
qed

lemma stand_pose_memory:
  "last_servos (snd (calculate_servo_commands stand_pose 640 480 (init_mimic True))) 14 = Some 875"
proof -
  have "(14, 875, ''R_elbow'') \<in> set (all_cands True stand_pose 640 480)"
    by (simp add: stand_pose_cands)
  from smooth_all_stored [OF all_cands_distinct this, of "init_mimic True"]
  show ?thesis
    unfolding stand_pose_output by (simp add: init_mimic_def smooth_value_def)
qed

theorem positions_within_servo_limits_witness:
  "reachable (snd (calculate_servo_commands stand_pose 640 480 (init_mimic True)))
   \<and> last_servos (snd (calculate_servo_commands stand_pose 640 480 (init_mimic True))) 14 = Some 875
   \<and> SERVO_MIN \<le> 875 \<and> 875 \<le> SERVO_MAX
   \<and> position (hd (emitted (calculate_servo_commands stand_pose 640 480 (init_mimic True)))) = 500
   \<and> SERVO_MIN \<le> position (hd (emitted (calculate_servo_commands stand_pose 640 480 (init_mimic True))))
   \<and> position (hd (emitted (calculate_servo_commands stand_pose 640 480 (init_mimic True)))) \<le> SERVO_MAX"
proof -
  let ?s1 = "snd (calculate_servo_commands stand_pose 640 480 (init_mimic True))"
  have r0: "reachable (init_mimic True)" by (rule reachable.start)
  then have r1: "reachable ?s1" by (rule reachable.frame)
  have a: "SERVO_MIN \<le> 875 \<and> 875 \<le> SERVO_MAX"
    using positions_within_servo_limits [OF r1, of stand_pose 640 480] stand_pose_memory by blast
  have mem: "hd (emitted (calculate_servo_commands stand_pose 640 480 (init_mimic True)))
      \<in> set (emitted (calculate_servo_commands stand_pose 640 480 (init_mimic True)))"
    by (simp add: emitted_def stand_pose_output)
  have b: "SERVO_MIN \<le> position (hd (emitted (calculate_servo_commands stand_pose 640 480 (init_mimic True))))
      \<and> position (hd (emitted (calculate_servo_commands stand_pose 640 480 (init_mimic True)))) \<le> SERVO_MAX"
    using positions_within_servo_limits [OF r0, of stand_pose 640 480] mem by blast
  have c: "position (hd (emitted (calculate_servo_commands stand_pose 640 480 (init_mimic True)))) = 500"
    by (simp add: emitted_def stand_pose_output)
  from r1 stand_pose_memory a b c show ?thesis by blast
qed

text \<open>
  C7. Processing a frame a second time, from the engine the first processing left,
  returns what the first processing returned: the same commands in the same order with
  the same positions (or the same exception), and the memory stays as it is.
\<close>

theorem same_frame_twice_same_output:
  "fst (calculate_servo_commands ls w h (snd (calculate_servo_commands ls w h self)))
     = fst (calculate_servo_commands ls w h self)"
proof (cases "needed (full_body self) \<le> length ls")
  case True
  let ?cs = "all_cands (full_body self) ls w h"
  have fb: "full_body (snd (smooth_all ?cs self)) = full_body self"
    by (rule smooth_all_full_body)
  from True have len: "needed (full_body (snd (smooth_all ?cs self))) \<le> length ls"
    by (simp add: fb)
  show ?thesis
    unfolding calculate_servo_commands_eq [OF True]
    by (simp add: calculate_servo_commands_eq [OF len] fb smooth_all_idem [OF all_cands_distinct])
next
  case False
  then have short: "length ls < needed (full_body self)" by simp
  then have "length ls < needed (full_body (snd (calculate_servo_commands ls w h self)))"
    by (simp add: calculate_servo_commands_full_body)
  then show ?thesis
    using short by (simp add: calculate_servo_commands_short)
qed

theorem same_frame_twice_same_output_witness:
  "fst (calculate_servo_commands stand_pose 640 480
          (snd (calculate_servo_commands stand_pose 640 480 (init_mimic True))))
     = fst (calculate_servo_commands stand_pose 640 480 (init_mimic True))
   \<and> length (emitted (calculate_servo_commands stand_pose 640 480
          (snd (calculate_servo_commands stand_pose 640 480 (init_mimic True))))) = 12"
proof -
  have "emitted (calculate_servo_commands stand_pose 640 480
          (snd (calculate_servo_commands stand_pose 640 480 (init_mimic True))))
      = emitted (calculate_servo_commands stand_pose 640 480 (init_mimic True))"
    unfolding emitted_def
    by (simp only: same_frame_twice_same_output [of stand_pose 640 480 "init_mimic True"])
  moreover have "length (emitted (calculate_servo_commands stand_pose 640 480 (init_mimic True))) = 12"
    by (simp add: emitted_def stand_pose_output)
  ultimately show ?thesis
    using same_frame_twice_same_output [of stand_pose 640 480 "init_mimic True"] by simp
qed

section \<open>Depth joints, missing landmarks and tracked servos\<close>

lemma servo_ids_emitted:
  "needed (full_body self) \<le> length ls \<Longrightarrow>
   servo_ids (emitted (calculate_servo_commands ls w h self))
     = set (map fst (all_cands (full_body self) ls w h))"
proof -
  assume len: "needed (full_body self) \<le> length ls"
  have "servo_ids (fst (smooth_all (all_cands (full_body self) ls w h) self))
      = set (map servo_id (fst (smooth_all (all_cands (full_body self) ls w h) self)))"
    by (simp add: servo_ids_def)
  then show ?thesis
    by (simp only: emitted_eq [OF len] smooth_all_ids)
qed






text \<open>
  C5, as the code has it. The servos of the emitted commands are among those the mode
  tracks; the arms mode tracks 6 servos and the full-body mode 12.
\<close>

theorem emitted_servos_tracked:
  "servo_ids (emitted (calculate_servo_commands ls w h self)) \<subseteq> tracked (full_body self)
   \<and> card (tracked False) = 6 \<and> card (tracked True) = 12"
proof -
  have sub: "servo_ids (emitted (calculate_servo_commands ls w h self)) \<subseteq> tracked (full_body self)"
  proof (cases "needed (full_body self) \<le> length ls")
    case True
    show ?thesis
      unfolding servo_ids_emitted [OF True] all_cands_ids
      by (auto simp: tracked_def)
  next
    case False
    then have "length ls < needed (full_body self)" by simp
    then show ?thesis by (simp add: emitted_short servo_ids_def)
  qed
  have "card (tracked False) = 6" "card (tracked True) = 12"
    by (simp_all add: tracked_def)
  with sub show ?thesis by simp
qed

theorem emitted_servos_tracked_witness:
  "servo_ids (emitted (calculate_servo_commands stand_pose 640 480 (init_mimic True)))
     \<subseteq> tracked (full_body (init_mimic True))
   \<and> servo_ids (emitted (calculate_servo_commands stand_pose 640 480 (init_mimic True)))
     = {15, 14, 7, 6, 16, 8, 4, 12, 3, 11, 2, 10}"
proof -
  have "servo_ids (emitted (calculate_servo_commands stand_pose 640 480 (init_mimic True)))
     = {15, 14, 7, 6, 16, 8, 4, 12, 3, 11, 2, 10}"
    by (simp add: emitted_def stand_pose_output servo_ids_def)
  with emitted_servos_tracked [of stand_pose 640 480 "init_mimic True"] show ?thesis
    by blast
qed

text \<open>
  The bound of 10 tracked servos the spec gives fails on the standing pose in full-body
  mode: its commands address 12 different servos.
\<close>

theorem full_body_twelve_counterexample:
  "card (servo_ids (emitted (calculate_servo_commands stand_pose 640 480 (init_mimic True)))) = 12"
  by (simp add: emitted_def stand_pose_output servo_ids_def)

section \<open>Mirror routing and degenerate joints\<close>


























end
